theory Spec2Isabelle
  imports Complex_Main "HOL-Library.AList"
begin

section \<open>Python values and exceptions\<close>

text \<open>
  The client and the verifier handle decoded JSON: response bodies, token claims. A decoded
  value is a \<open>json\<close>; Python's \<open>None\<close> is \<open>JNull\<close>, a \<open>dict\<close> is an association list
  read from the left. Numbers are exact reals: the rounding of Python's floats is left out.
\<close>

datatype json =
    JNull
  | JBool bool
  | JNum real
  | JStr string
  | JArr "json list"
  | JObj "(string \<times> json) list"

text \<open>
  Exceptions are values: a class and the text that \<open>str(e)\<close> gives. The classes are the
  subclasses of \<open>Exception\<close> that the two packages raise, catch or let through.
\<close>

datatype exn_class =
    Exception
  | KeyError
  | TypeError
  | ValueError
  | AttributeError
  | JSONDecodeError
  | HTTPError
  | InvalidTokenError
  | ExpiredSignatureError
  | InvalidSignatureError
  | InvalidAudienceError
  | MissingRequiredClaimError
  | DecodeError

datatype exn = Exn exn_class string

text \<open>\<open>is_a c d\<close>: an exception of class \<open>c\<close> is caught by \<open>except d\<close>.\<close>

fun is_a :: "exn_class \<Rightarrow> exn_class \<Rightarrow> bool" where
  "is_a c Exception = True"
| "is_a c ValueError = (c = ValueError \<or> c = JSONDecodeError)"
| "is_a c InvalidTokenError =
     (c = InvalidTokenError \<or> c = ExpiredSignatureError \<or> c = InvalidSignatureError
      \<or> c = InvalidAudienceError \<or> c = MissingRequiredClaimError \<or> c = DecodeError)"
| "is_a c DecodeError = (c = DecodeError \<or> c = InvalidSignatureError)"
| "is_a c d = (c = d)"

fun exn_class_of :: "exn \<Rightarrow> exn_class" where
  "exn_class_of (Exn c m) = c"

fun exn_str :: "exn \<Rightarrow> string" where
  "exn_str (Exn c m) = m"

text \<open>Sequencing of steps that may raise: the first exception ends the run.\<close>

definition and_then :: "exn + 'a \<Rightarrow> ('a \<Rightarrow> exn + 'b) \<Rightarrow> exn + 'b" where
  "and_then x f = (case x of Inl e \<Rightarrow> Inl e | Inr a \<Rightarrow> f a)"

definition quoted :: "string \<Rightarrow> string" where
  "quoted s = CHR 0x27 # s @ [CHR 0x27]"

text \<open>Python's truth value of a decoded value (\<open>if x:\<close>).\<close>

fun truthy :: "json \<Rightarrow> bool" where
  "truthy JNull = False"
| "truthy (JBool b) = b"
| "truthy (JNum x) = (x \<noteq> 0)"
| "truthy (JStr s) = (s \<noteq> [])"
| "truthy (JArr xs) = (xs \<noteq> [])"
| "truthy (JObj kvs) = (kvs \<noteq> [])"

text \<open>The truth value of an \<open>Optional[str]\<close> configuration field.\<close>

fun truthy_str :: "string option \<Rightarrow> bool" where
  "truthy_str None = False"
| "truthy_str (Some s) = (s \<noteq> [])"

fun starts_with :: "string \<Rightarrow> string \<Rightarrow> bool" where
  "starts_with [] s = True"
| "starts_with (c # cs) [] = False"
| "starts_with (c # cs) (d # ds) = (c = d \<and> starts_with cs ds)"

text \<open>\<open>contains sub s\<close>: Python's \<open>sub in s\<close> on two strings.\<close>

fun contains :: "string \<Rightarrow> string \<Rightarrow> bool" where
  "contains sub [] = (sub = [])"
| "contains sub (c # cs) = (starts_with sub (c # cs) \<or> contains sub cs)"

text \<open>
  \<open>key in x\<close> for a string key: membership of the key in a dict, of the string among the
  elements of a list, of the substring in a string; \<open>TypeError\<close> on anything else.
\<close>

fun py_in :: "string \<Rightarrow> json \<Rightarrow> exn + bool" where
  "py_in k (JObj kvs) = Inr (map_of kvs k \<noteq> None)"
| "py_in k (JArr xs) = Inr (JStr k \<in> set xs)"
| "py_in k (JStr s) = Inr (contains k s)"
| "py_in k v = Inl (Exn TypeError ''argument is not iterable'')"

text \<open>
  \<open>x[key]\<close> for a string key: the value in a dict or \<open>KeyError\<close>; \<open>TypeError\<close> on
  a list or a string (indices must be integers) and on anything else (not subscriptable).
\<close>

fun py_getitem :: "json \<Rightarrow> string \<Rightarrow> exn + json" where
  "py_getitem (JObj kvs) k =
     (case map_of kvs k of None \<Rightarrow> Inl (Exn KeyError (quoted k)) | Some v \<Rightarrow> Inr v)"
| "py_getitem (JArr xs) k = Inl (Exn TypeError ''list indices must be integers or slices, not str'')"
| "py_getitem (JStr s) k = Inl (Exn TypeError ''string indices must be integers'')"
| "py_getitem v k = Inl (Exn TypeError ''object is not subscriptable'')"

text \<open>\<open>d.get(key, default)\<close> on a dict.\<close>

definition dict_get :: "(string \<times> json) list \<Rightarrow> string \<Rightarrow> json \<Rightarrow> json" where
  "dict_get kvs k dflt = (case map_of kvs k of None \<Rightarrow> dflt | Some v \<Rightarrow> v)"

text \<open>
  \<open>str(v)\<close> as an f-string formats it. The text of a string is itself and \<open>None\<close>,
  \<open>True\<close>, \<open>False\<close> print as such; how numbers, lists and dicts print is the
  parameter \<open>repr\<close>.
\<close>

fun py_str :: "(json \<Rightarrow> string) \<Rightarrow> json \<Rightarrow> string" where
  "py_str repr (JStr s) = s"
| "py_str repr JNull = ''None''"
| "py_str repr (JBool b) = (if b then ''True'' else ''False'')"
| "py_str repr v = repr v"

section \<open>The verifier: \<open>botcha_verify/verify.py\<close>\<close>

record BotchaPayload =
  p_sub :: json
  p_iat :: json
  p_exp :: json
  p_jti :: json
  p_type :: json
  p_solve_time :: json
  p_aud :: json
  p_client_ip :: json

record VerifyOptions =
  audience :: "string option"
  client_ip :: "string option"

record VerifyResult =
  valid :: bool
  payload :: "BotchaPayload option"
  error :: "string option"

text \<open>
  \<open>jwt.decode(token, secret, algorithms=["HS256"], options={"require": [...]}, audience=...)\<close>
  belongs to the PyJWT library. It is a parameter of the model: from the token, the secret and
  the \<open>audience\<close> keyword (absent or a string) it raises or returns the claims dict.
\<close>

type_synonym jwt_decode = "string \<Rightarrow> string \<Rightarrow> string option \<Rightarrow> exn + (string \<times> json) list"

definition invalid :: "string \<Rightarrow> VerifyResult" where
  "invalid msg = \<lparr>valid = False, payload = None, error = Some msg\<rparr>"

text \<open>The keyword \<open>audience\<close> of the call: set \<open>if options and options.audience\<close>.\<close>

definition audience_kwarg :: "VerifyOptions option \<Rightarrow> string option" where
  "audience_kwarg options =
     (case options of
        None \<Rightarrow> None
      | Some opt \<Rightarrow> if truthy_str (audience opt) then audience opt else None)"

definition required_ip :: "VerifyOptions option \<Rightarrow> string option" where
  "required_ip options =
     (case options of
        None \<Rightarrow> None
      | Some opt \<Rightarrow> if truthy_str (client_ip opt) then client_ip opt else None)"

text \<open>The dataclass built from the claims; each \<open>payload[...]\<close> may raise \<open>KeyError\<close>.\<close>

definition build_payload :: "(string \<times> json) list \<Rightarrow> exn + BotchaPayload" where
  "build_payload claims =
     and_then (py_getitem (JObj claims) ''sub'') (\<lambda>v_sub.
     and_then (py_getitem (JObj claims) ''iat'') (\<lambda>v_iat.
     and_then (py_getitem (JObj claims) ''exp'') (\<lambda>v_exp.
     and_then (py_getitem (JObj claims) ''jti'') (\<lambda>v_jti.
     and_then (py_getitem (JObj claims) ''type'') (\<lambda>v_type.
       Inr \<lparr>p_sub = v_sub, p_iat = v_iat, p_exp = v_exp, p_jti = v_jti, p_type = v_type,
            p_solve_time = dict_get claims ''solveTime'' (JNum 0),
            p_aud = dict_get claims ''aud'' JNull,
            p_client_ip = dict_get claims ''client_ip'' JNull\<rparr>)))))"

text \<open>The body of the \<open>try\<close> block of \<open>verify_botcha_token\<close>.\<close>

definition verify_try :: "jwt_decode \<Rightarrow> (json \<Rightarrow> string) \<Rightarrow> string \<Rightarrow> string
    \<Rightarrow> VerifyOptions option \<Rightarrow> exn + VerifyResult" where
  "verify_try decode repr tok secret options =
     (case decode tok secret (audience_kwarg options) of
        Inl e \<Rightarrow> Inl e
      | Inr claims \<Rightarrow>
          let token_type = dict_get claims ''type'' JNull in
          if token_type \<noteq> JStr ''botcha-verified'' then
            Inr (invalid (''Invalid token type: expected '' @ quoted ''botcha-verified''
                          @ '', got '' @ quoted (py_str repr token_type)))
          else
            let token_ip = dict_get claims ''client_ip'' JNull in
            (case required_ip options of
               Some ip \<Rightarrow>
                 if \<not> truthy token_ip \<or> token_ip \<noteq> JStr ip then
                   Inr (invalid (''Client IP mismatch: expected '' @ quoted ip
                                 @ '', got '' @ quoted (py_str repr token_ip)))
                 else
                   (case build_payload claims of
                      Inl e \<Rightarrow> Inl e
                    | Inr p \<Rightarrow> Inr \<lparr>valid = True, payload = Some p, error = None\<rparr>)
             | None \<Rightarrow>
                 (case build_payload claims of
                    Inl e \<Rightarrow> Inl e
                  | Inr p \<Rightarrow> Inr \<lparr>valid = True, payload = Some p, error = None\<rparr>)))"

text \<open>
  \<open>verify_botcha_token\<close>: the \<open>try\<close> block under its three handlers, tried in the
  order of the source. \<open>Inl\<close> would be an exception that reaches the caller.
\<close>

definition verify_botcha_token :: "jwt_decode \<Rightarrow> (json \<Rightarrow> string) \<Rightarrow> string \<Rightarrow> string
    \<Rightarrow> VerifyOptions option \<Rightarrow> exn + VerifyResult" where
  "verify_botcha_token decode repr tok secret options =
     (case verify_try decode repr tok secret options of
        Inr r \<Rightarrow> Inr r
      | Inl e \<Rightarrow>
          if is_a (exn_class_of e) ExpiredSignatureError then
            Inr (invalid ''Token has expired'')
          else if is_a (exn_class_of e) InvalidTokenError then
            Inr (invalid (''Invalid token: '' @ exn_str e))
          else if is_a (exn_class_of e) Exception then
            Inr (invalid (''Token verification failed: '' @ exn_str e))
          else Inl e)"

section \<open>The client: \<open>botcha/client.py\<close>\<close>

subsection \<open>The session, the network and the clock\<close>

text \<open>
  The fields of a \<open>BotchaClient\<close>: \<open>self_token\<close> is \<open>self._token\<close>, and so on. The
  token fields hold whatever the response carried, \<open>JNull\<close> when they are \<open>None\<close>.
\<close>

record client =
  self_base_url :: string
  self_agent_identity :: "string option"
  self_max_retries :: int
  self_auto_token :: bool
  self_audience :: "string option"
  self_app_id :: "string option"
  self_token :: json
  self_token_expires_at :: real
  self_refresh_token :: json

text \<open>
  A response as the client reads it: the status code and what \<open>response.json()\<close> gives,
  the decoded body or the exception of the decoder.
\<close>

record response =
  status_code :: int
  json_result :: "exn + json"

datatype reply = Raises exn | Returns response

text \<open>The three entry points of \<open>httpx.AsyncClient\<close> that the client calls.\<close>

datatype httpx_call = Get | Post | Request

record request =
  rq_call :: httpx_call
  rq_method :: string
  rq_url :: string
  rq_headers :: "(string \<times> json) list"
  rq_json :: "json option"
  rq_kwargs :: "(string \<times> json) list"

text \<open>
  The world of one client: its fields, the clock that \<open>time.time()\<close> reads, the replies
  the network will give, in order, each with the time the exchange takes, and the requests
  sent so far. A network with no reply left fails with a transport error.
\<close>

record world = client +
  clock :: real
  replies :: "(real \<times> reply) list"
  sent :: "request list"

text \<open>
  Library functions that the client calls and this repository does not define, as
  parameters: the solver of \<open>botcha.solver\<close>, \<open>base64.urlsafe_b64decode\<close>,
  \<open>json.loads\<close>, \<open>json.dumps\<close>, \<open>float\<close> of a string, and \<open>str\<close> of a
  number, list or dict.
\<close>

record pylib =
  solve_botcha :: "json \<Rightarrow> exn + json"
  urlsafe_b64decode :: "string \<Rightarrow> exn + string"
  json_loads :: "string \<Rightarrow> exn + json"
  json_dumps :: "json \<Rightarrow> exn + string"
  float_of_str :: "string \<Rightarrow> exn + real"
  repr_of :: "json \<Rightarrow> string"

text \<open>
  An action runs in a world and ends with a value or an exception, in the world it has
  reached: what a method changed before it raised stays changed.
\<close>

type_synonym 'a action = "world \<Rightarrow> (exn + 'a) \<times> world"

definition ok :: "'a \<Rightarrow> 'a action" where
  "ok a = (\<lambda>w. (Inr a, w))"

definition raise :: "exn \<Rightarrow> 'a action" where
  "raise e = (\<lambda>w. (Inl e, w))"

definition lift :: "exn + 'a \<Rightarrow> 'a action" where
  "lift x = (\<lambda>w. (x, w))"

definition seq :: "'a action \<Rightarrow> ('a \<Rightarrow> 'b action) \<Rightarrow> 'b action" where
  "seq m f = (\<lambda>w. case m w of (Inl e, w') \<Rightarrow> (Inl e, w') | (Inr a, w') \<Rightarrow> f a w')"

definition reads :: "(world \<Rightarrow> 'a) \<Rightarrow> 'a action" where
  "reads f = (\<lambda>w. (Inr (f w), w))"

definition modify :: "(world \<Rightarrow> world) \<Rightarrow> unit action" where
  "modify f = (\<lambda>w. (Inr (), f w))"

text \<open>\<open>try: m except <classes p>: h\<close>.\<close>

definition catch :: "'a action \<Rightarrow> (exn_class \<Rightarrow> bool) \<Rightarrow> 'a action \<Rightarrow> 'a action" where
  "catch m p h =
     (\<lambda>w. case m w of
        (Inl e, w') \<Rightarrow> if p (exn_class_of e) then h w' else (Inl e, w')
      | (Inr a, w') \<Rightarrow> (Inr a, w'))"

text \<open>One exchange with the network: the request is recorded, the next reply consumed.\<close>

definition send :: "request \<Rightarrow> response action" where
  "send rq =
     (\<lambda>w. case replies w of
        [] \<Rightarrow> (Inl (Exn HTTPError ''connection failed''), w\<lparr>sent := sent w @ [rq]\<rparr>)
      | (dt, rp) # rest \<Rightarrow>
          ((case rp of Raises e \<Rightarrow> Inl e | Returns r \<Rightarrow> Inr r),
           w\<lparr>clock := clock w + dt, replies := rest, sent := sent w @ [rq]\<rparr>))"

text \<open>\<open>self._client.get(url)\<close> and \<open>self._client.post(url, json=body)\<close>.\<close>

definition client_get :: "string \<Rightarrow> response action" where
  "client_get u =
     send \<lparr>rq_call = Get, rq_method = ''GET'', rq_url = u, rq_headers = [],
           rq_json = None, rq_kwargs = []\<rparr>"

definition client_post :: "string \<Rightarrow> json \<Rightarrow> response action" where
  "client_post u body =
     send \<lparr>rq_call = Post, rq_method = ''POST'', rq_url = u, rq_headers = [],
           rq_json = Some body, rq_kwargs = []\<rparr>"

text \<open>
  \<open>self._client.request(method, url, **kwargs)\<close> with \<open>kwargs["headers"] = headers\<close>.
  A keyword that names one of the two positional parameters is a \<open>TypeError\<close> of the
  call itself: nothing is sent.
\<close>

definition client_request :: "string \<Rightarrow> string \<Rightarrow> (string \<times> json) list
    \<Rightarrow> (string \<times> json) list \<Rightarrow> response action" where
  "client_request m u hdrs kw =
     (if map_of kw ''method'' \<noteq> None \<or> map_of kw ''url'' \<noteq> None then
        raise (Exn TypeError ''got multiple values for argument'')
      else
        send \<lparr>rq_call = Request, rq_method = m, rq_url = u, rq_headers = hdrs,
              rq_json = None, rq_kwargs = kw\<rparr>)"

text \<open>
  \<open>response.raise_for_status()\<close> of httpx: an exception unless the status is a success
  (2xx).
\<close>

definition raise_for_status :: "response \<Rightarrow> exn + unit" where
  "raise_for_status r =
     (if 200 \<le> status_code r \<and> status_code r \<le> 299 then Inr ()
      else Inl (Exn HTTPError ''error status''))"

subsection \<open>Construction and \<open>close\<close>\<close>

definition rstrip_slash :: "string \<Rightarrow> string" where
  "rstrip_slash s = rev (dropWhile (\<lambda>c. c = CHR ''/'') (rev s))"

definition new_client :: "string \<Rightarrow> string option \<Rightarrow> int \<Rightarrow> bool \<Rightarrow> string option
    \<Rightarrow> string option \<Rightarrow> client" where
  "new_client base_url agent_identity max_retries auto_token aud app_id =
     \<lparr>self_base_url = rstrip_slash base_url, self_agent_identity = agent_identity,
      self_max_retries = max_retries, self_auto_token = auto_token, self_audience = aud,
      self_app_id = app_id, self_token = JNull, self_token_expires_at = 0,
      self_refresh_token = JNull\<rparr>"

text \<open>A client in a world: the clock reading and the replies the network holds.\<close>

definition world_of :: "client \<Rightarrow> real \<Rightarrow> (real \<times> reply) list \<Rightarrow> world" where
  "world_of c t rs = client.extend c \<lparr>clock = t, replies = rs, sent = []\<rparr>"

definition clear_session :: "world \<Rightarrow> world" where
  "clear_session w =
     w\<lparr>self_token := JNull, self_token_expires_at := 0, self_refresh_token := JNull\<rparr>"

definition close :: "unit action" where
  "close = modify clear_session"

subsection \<open>\<open>get_token\<close>\<close>

text \<open>\<open>now + v\<close> for a float \<open>now\<close>: a number is added (\<open>True\<close> counts 1), anything else is a \<open>TypeError\<close>.\<close>

fun py_add :: "real \<Rightarrow> json \<Rightarrow> exn + real" where
  "py_add now (JNum x) = Inr (now + x)"
| "py_add now (JBool b) = Inr (now + (if b then 1 else 0))"
| "py_add now v = Inl (Exn TypeError ''unsupported operand type(s) for +'')"

text \<open>\<open>float(v)\<close>.\<close>

fun py_float :: "pylib \<Rightarrow> json \<Rightarrow> exn + real" where
  "py_float L (JNum x) = Inr x"
| "py_float L (JBool b) = Inr (if b then 1 else 0)"
| "py_float L (JStr s) = float_of_str L s"
| "py_float L v = Inl (Exn TypeError ''float() argument must be a string or a real number'')"

text \<open>\<open>s.split(".")\<close>: never empty.\<close>

fun split_dot :: "string \<Rightarrow> string list" where
  "split_dot [] = [[]]"
| "split_dot (c # cs) =
     (if c = CHR ''.'' then [] # split_dot cs
      else (case split_dot cs of [] \<Rightarrow> [[c]] | p # ps \<Rightarrow> (c # p) # ps))"

text \<open>\<open>token.split(".")\<close> on what the response gave as the token.\<close>

fun py_split_dot :: "json \<Rightarrow> exn + string list" where
  "py_split_dot (JStr t) = Inr (split_dot t)"
| "py_split_dot v = Inl (Exn AttributeError ''object has no attribute split'')"

text \<open>The padding of the payload segment (lines 171 to 173).\<close>

definition add_padding :: "string \<Rightarrow> string" where
  "add_padding payload_b64 =
     (let padding = 4 - (length payload_b64 mod 4) in
      if padding \<noteq> 4 then payload_b64 @ replicate padding (CHR ''='') else payload_b64)"

text \<open>
  The body of the \<open>try\<close> block that reads the expiry from the token itself
  (lines 165 to 186): the value for \<open>self._token_expires_at\<close>, or an exception.
\<close>

definition jwt_expiry_try :: "pylib \<Rightarrow> real \<Rightarrow> json \<Rightarrow> exn + real" where
  "jwt_expiry_try L now tok =
     and_then (py_split_dot tok) (\<lambda>parts.
       if length parts \<ge> 2 then
         and_then (urlsafe_b64decode L (add_padding (parts ! 1))) (\<lambda>payload_bytes.
         and_then (json_loads L payload_bytes) (\<lambda>payload.
         and_then (py_in ''exp'' payload) (\<lambda>has_exp.
           if has_exp then
             and_then (py_getitem payload ''exp'') (\<lambda>v. py_float L v)
           else Inr (now + 300))))
       else Inr (now + 300))"

text \<open>The \<open>try\<close> block under its handler \<open>except Exception\<close> (lines 187 to 189).\<close>

definition jwt_expiry :: "pylib \<Rightarrow> real \<Rightarrow> json \<Rightarrow> real" where
  "jwt_expiry L now tok =
     (case jwt_expiry_try L now tok of Inl e \<Rightarrow> now + 300 | Inr t \<Rightarrow> t)"

text \<open>
  Lines 145 to 191: the token response is read and the session updated. \<open>now\<close> is the
  reading of the clock at the start of \<open>get_token\<close>.
\<close>

definition cache_token_response :: "pylib \<Rightarrow> real \<Rightarrow> json \<Rightarrow> json action" where
  "cache_token_response L now verify_data =
     seq (lift (py_getitem verify_data ''verified'')) (\<lambda>verified.
     seq (lift (py_getitem verify_data ''token'')) (\<lambda>tok.
     seq (lift (py_getitem verify_data ''solveTimeMs'')) (\<lambda>solve_time_ms.
     seq (modify (\<lambda>w. w\<lparr>self_token := tok\<rparr>)) (\<lambda>_.
     seq (lift (py_in ''refresh_token'' verify_data)) (\<lambda>has_refresh.
     seq (if has_refresh then
            seq (lift (py_getitem verify_data ''refresh_token'')) (\<lambda>rt.
              modify (\<lambda>w. w\<lparr>self_refresh_token := rt\<rparr>))
          else ok ()) (\<lambda>_.
     seq (lift (py_in ''expires_in'' verify_data)) (\<lambda>has_expires_in.
     seq (if has_expires_in then
            seq (lift (py_getitem verify_data ''expires_in'')) (\<lambda>expires_in.
            seq (lift (py_add now expires_in)) (\<lambda>t.
              modify (\<lambda>w. w\<lparr>self_token_expires_at := t\<rparr>)))
          else modify (\<lambda>w. w\<lparr>self_token_expires_at := jwt_expiry L now tok\<rparr>)) (\<lambda>_.
     reads self_token))))))))"

definition token_url :: "world \<Rightarrow> string" where
  "token_url w =
     self_base_url w @ ''/v1/token''
       @ (if truthy_str (self_app_id w) then ''?app_id='' @ the (self_app_id w) else [])"

definition verify_payload :: "world \<Rightarrow> json \<Rightarrow> json \<Rightarrow> json" where
  "verify_payload w cid solutions =
     JObj ([(''id'', cid), (''answers'', solutions)]
       @ (if truthy_str (self_audience w) then [(''audience'', JStr (the (self_audience w)))] else [])
       @ (if truthy_str (self_app_id w) then [(''app_id'', JStr (the (self_app_id w)))] else []))"

text \<open>The test of line 110: the cached token is still good at time \<open>now\<close>.\<close>

definition cache_valid :: "world \<Rightarrow> real \<Rightarrow> bool" where
  "cache_valid w now = (truthy (self_token w) \<and> self_token_expires_at w > now + 300)"

definition get_token :: "pylib \<Rightarrow> json action" where
  "get_token L =
     (\<lambda>w. let now = clock w in
        if cache_valid w now then (Inr (self_token w), w)
        else
         (seq (client_get (token_url w)) (\<lambda>challenge_response.
          seq (lift (raise_for_status challenge_response)) (\<lambda>_.
          seq (lift (json_result challenge_response)) (\<lambda>challenge_data.
          seq (lift (py_getitem challenge_data ''id'')) (\<lambda>cid.
          seq (lift (py_getitem challenge_data ''problems'')) (\<lambda>problems.
          seq (lift (py_getitem challenge_data ''timeLimit'')) (\<lambda>time_limit.
          seq (lift (solve_botcha L problems)) (\<lambda>solutions.
          seq (client_post (self_base_url w @ ''/v1/token/verify'')
                 (verify_payload w cid solutions)) (\<lambda>verify_response.
          seq (lift (raise_for_status verify_response)) (\<lambda>_.
          seq (lift (json_result verify_response)) (\<lambda>verify_data.
            cache_token_response L now verify_data))))))))))) w)"

subsection \<open>\<open>refresh_token\<close>\<close>

definition refresh_token :: "json action" where
  "refresh_token =
     (\<lambda>w. if \<not> truthy (self_refresh_token w) then
            (Inl (Exn ValueError ''No refresh token available''), w)
          else
           (seq (client_post (self_base_url w @ ''/v1/token/refresh'')
                   (JObj [(''refresh_token'', self_refresh_token w)])) (\<lambda>refresh_response.
            seq (lift (raise_for_status refresh_response)) (\<lambda>_.
            seq (lift (json_result refresh_response)) (\<lambda>refresh_data.
            seq (lift (py_getitem refresh_data ''access_token'')) (\<lambda>tok.
            seq (modify (\<lambda>w. w\<lparr>self_token := tok\<rparr>)) (\<lambda>_.
            seq (reads clock) (\<lambda>now.
            seq (lift (py_in ''expires_in'' refresh_data)) (\<lambda>has_expires_in.
            seq (if has_expires_in then
                   seq (lift (py_getitem refresh_data ''expires_in'')) (\<lambda>expires_in.
                   seq (lift (py_add now expires_in)) (\<lambda>t.
                     modify (\<lambda>w. w\<lparr>self_token_expires_at := t\<rparr>)))
                 else modify (\<lambda>w. w\<lparr>self_token_expires_at := now + 300\<rparr>)) (\<lambda>_.
            reads self_token))))))))) w)"

subsection \<open>\<open>fetch\<close>\<close>

text \<open>\<open>headers["Authorization"] = f"Bearer {token}"\<close>.\<close>

definition with_bearer :: "pylib \<Rightarrow> (string \<times> json) list \<Rightarrow> json \<Rightarrow> (string \<times> json) list" where
  "with_bearer L hdrs tok =
     AList.update ''Authorization'' (JStr (''Bearer '' @ py_str (repr_of L) tok)) hdrs"

text \<open>
  The \<open>try\<close> block of lines 267 to 280 under its handler: \<open>Some r\<close> when the block
  returns \<open>r\<close> from \<open>fetch\<close>, \<open>None\<close> when control goes on to the full re-verify.
\<close>

definition refresh_and_resend :: "pylib \<Rightarrow> string \<Rightarrow> (string \<times> json) list
    \<Rightarrow> (string \<times> json) list \<Rightarrow> response option action" where
  "refresh_and_resend L u hdrs kw =
     catch
       (seq refresh_token (\<lambda>tok.
        seq (client_request ''GET'' u (with_bearer L hdrs tok) kw) (\<lambda>resp.
          if status_code resp \<noteq> 401 then ok (Some resp) else ok None)))
       (\<lambda>c. is_a c Exception)
       (ok None)"

text \<open>Lines 295 to 316: the inline challenge of a 403 response, then \<open>return response\<close>.\<close>

definition handle_403 :: "pylib \<Rightarrow> string \<Rightarrow> (string \<times> json) list
    \<Rightarrow> (string \<times> json) list \<Rightarrow> response \<Rightarrow> response action" where
  "handle_403 L u hdrs kw resp =
     (if status_code resp = 403 then
        catch
          (seq (lift (json_result resp)) (\<lambda>body.
           seq (lift (py_in ''challenge'' body)) (\<lambda>has_challenge.
           if \<not> has_challenge then ok resp
           else
             seq (lift (py_getitem body ''challenge'')) (\<lambda>challenge.
             seq (lift (py_in ''problems'' challenge)) (\<lambda>has_problems.
             if \<not> has_problems then ok resp
             else
               seq (lift (py_getitem challenge ''problems'')) (\<lambda>problems.
               seq (lift (solve_botcha L problems)) (\<lambda>solutions.
               seq (lift (py_getitem challenge ''id'')) (\<lambda>cid.
               seq (lift (json_dumps L solutions)) (\<lambda>answers.
               seq (reads self_app_id) (\<lambda>app_id.
                 client_request ''GET'' u
                   ((if truthy_str app_id then AList.update ''X-Botcha-App-Id'' (JStr (the app_id))
                     else id)
                    (AList.update ''X-Botcha-Answers'' (JStr answers)
                    (AList.update ''X-Botcha-Challenge-Id'' cid hdrs))) kw))))))))))
          (\<lambda>c. is_a c JSONDecodeError \<or> is_a c KeyError)
          (ok resp)
      else ok resp)"

text \<open>
  Lines 264 to 293, entered when the first response is 401 and \<open>auto_token\<close> is set.
  The result is \<open>(True, r, _)\<close> when the block returns \<open>r\<close> from \<open>fetch\<close>, and
  \<open>(False, r, headers)\<close> when control leaves the block with \<open>response = r\<close>.
\<close>

definition handle_401 :: "pylib \<Rightarrow> string \<Rightarrow> (string \<times> json) list \<Rightarrow> (string \<times> json) list
    \<Rightarrow> (bool \<times> response \<times> (string \<times> json) list) action" where
  "handle_401 L u hdrs kw =
     seq (reads self_refresh_token) (\<lambda>rt.
     seq (if truthy rt then refresh_and_resend L u hdrs kw else ok None) (\<lambda>early.
       case early of
         Some r \<Rightarrow> ok (True, r, hdrs)
       | None \<Rightarrow>
           seq (modify clear_session) (\<lambda>_.
           seq (get_token L) (\<lambda>tok.
           seq (client_request ''GET'' u (with_bearer L hdrs tok) kw) (\<lambda>resp2.
             ok (False, resp2, with_bearer L hdrs tok))))))"

text \<open>
  \<open>fetch(url, **kwargs)\<close>: \<open>hdrs\<close> is \<open>kwargs.pop("headers", {})\<close> and \<open>kw\<close> the
  keywords that are left.
\<close>

definition fetch :: "pylib \<Rightarrow> string \<Rightarrow> (string \<times> json) list \<Rightarrow> (string \<times> json) list
    \<Rightarrow> response action" where
  "fetch L u hdrs kw =
     seq (reads self_auto_token) (\<lambda>auto_token.
     seq (if auto_token then seq (get_token L) (\<lambda>tok. ok (with_bearer L hdrs tok))
          else ok hdrs) (\<lambda>hdrs1.
     seq (client_request ''GET'' u hdrs1 kw) (\<lambda>resp.
     seq (if status_code resp = 401 \<and> auto_token then handle_401 L u hdrs1 kw
          else ok (False, resp, hdrs1)) (\<lambda>(returned, resp1, hdrs2).
       if returned then ok resp1 else handle_403 L u hdrs2 kw resp1))))"

section \<open>Notions used in the statements\<close>

text \<open>The two requests of one challenge exchange, as \<open>get_token\<close> sends them from \<open>w\<close>.\<close>

definition token_get_rq :: "world \<Rightarrow> request" where
  "token_get_rq w =
     \<lparr>rq_call = Get, rq_method = ''GET'', rq_url = token_url w, rq_headers = [],
      rq_json = None, rq_kwargs = []\<rparr>"

definition token_verify_rq :: "world \<Rightarrow> json \<Rightarrow> json \<Rightarrow> request" where
  "token_verify_rq w cid solutions =
     \<lparr>rq_call = Post, rq_method = ''POST'', rq_url = self_base_url w @ ''/v1/token/verify'',
      rq_headers = [], rq_json = Some (verify_payload w cid solutions), rq_kwargs = []\<rparr>"

text \<open>The request of \<open>refresh_token\<close> from \<open>w\<close>.\<close>

definition token_refresh_rq :: "world \<Rightarrow> request" where
  "token_refresh_rq w =
     \<lparr>rq_call = Post, rq_method = ''POST'', rq_url = self_base_url w @ ''/v1/token/refresh'',
      rq_headers = [], rq_json = Some (JObj [(''refresh_token'', self_refresh_token w)]),
      rq_kwargs = []\<rparr>"

text \<open>The request that \<open>fetch\<close> sends for the caller's URL, with the headers it has then.\<close>

definition resource_rq :: "string \<Rightarrow> (string \<times> json) list \<Rightarrow> (string \<times> json) list \<Rightarrow> request" where
  "resource_rq u hdrs kw =
     \<lparr>rq_call = Request, rq_method = ''GET'', rq_url = u, rq_headers = hdrs,
      rq_json = None, rq_kwargs = kw\<rparr>"

text \<open>
  \<open>appends P m\<close>: whatever the world, the action \<open>m\<close> only adds requests to those sent,
  and each request it adds satisfies \<open>P\<close>.
\<close>

definition appends :: "(request \<Rightarrow> bool) \<Rightarrow> 'a action \<Rightarrow> bool" where
  "appends P m = (\<forall>w. \<exists>new. sent (snd (m w)) = sent w @ new \<and> list_all P new)"

text \<open>A request made through \<open>self._client.request\<close> is a GET of \<open>u\<close> with no \<open>method\<close> keyword.\<close>

definition get_of :: "string \<Rightarrow> request \<Rightarrow> bool" where
  "get_of u rq =
     (rq_call rq = Request \<longrightarrow>
        rq_method rq = ''GET'' \<and> rq_url rq = u \<and> map_of (rq_kwargs rq) ''method'' = None)"

text \<open>
  Lines 287 to 293: a fresh token by the challenge flow and the request sent once more.
\<close>

definition reacquire :: "pylib \<Rightarrow> string \<Rightarrow> (string \<times> json) list \<Rightarrow> (string \<times> json) list
    \<Rightarrow> (bool \<times> response \<times> (string \<times> json) list) action" where
  "reacquire L u hdrs kw =
           seq (get_token L) (\<lambda>tok.
           seq (client_request ''GET'' u (with_bearer L hdrs tok) kw) (\<lambda>resp2.
             ok (False, resp2, with_bearer L hdrs tok)))"

text \<open>
  The payload segment of a token: the second of its dot-separated segments, when the token
  is a string with at least two. In a token of three segments it is the middle one.
\<close>

definition payload_segment :: "json \<Rightarrow> string option" where
  "payload_segment tok =
     (case tok of
        JStr t \<Rightarrow> (case split_dot t of p0 # p1 # ps \<Rightarrow> Some p1 | _ \<Rightarrow> None)
      | _ \<Rightarrow> None)"


section \<open>Example inputs\<close>

text \<open>
  A token whose audience claim is \<open>https://api.example.com\<close>, as PyJWT decodes it under
  the secret \<open>test-secret\<close>: an audience that is not the token's raises
  \<open>InvalidAudienceError\<close> with the text \<open>Audience doesn't match\<close>.
\<close>

definition example_claims :: "(string \<times> json) list" where
  "example_claims =
     [(''sub'', JStr ''test-challenge-123''), (''iat'', JNum 1700000000),
      (''exp'', JNum 1700000300), (''jti'', JStr ''test-jti-123''),
      (''type'', JStr ''botcha-verified''), (''solveTime'', JNum 1234),
      (''aud'', JStr ''https://api.example.com'')]"

definition example_decode :: jwt_decode where
  "example_decode tok secret aud =
     (if tok \<noteq> ''example.token.aud'' then Inl (Exn DecodeError ''Not enough segments'')
      else if secret \<noteq> ''test-secret'' then
        Inl (Exn InvalidSignatureError ''Signature verification failed'')
      else if aud = None then Inl (Exn InvalidAudienceError ''Invalid audience'')
      else if aud = Some ''https://api.example.com'' then Inr example_claims
      else Inl (Exn InvalidAudienceError ''Audience doesn't match''))"

definition example_repr :: "json \<Rightarrow> string" where
  "example_repr v = ''<repr>''"


text \<open>
  A library for the client's examples: the payload segment \<open>eyJleHAiOjUwMH0\<close>, padded
  with one \<open>=\<close>, decodes to the claims \<open>{"exp": 500}\<close>.
\<close>

definition example_lib :: pylib where
  "example_lib =
     \<lparr>solve_botcha = (\<lambda>problems. Inr (JArr [JStr ''8d969eef''])),
      urlsafe_b64decode =
        (\<lambda>s. if s = ''eyJleHAiOjUwMH0='' then Inr ''{exp:500}''
             else Inl (Exn ValueError ''Invalid base64-encoded string'')),
      json_loads =
        (\<lambda>s. if s = ''{exp:500}'' then Inr (JObj [(''exp'', JNum 500)])
             else Inl (Exn JSONDecodeError ''Expecting value'')),
      json_dumps = (\<lambda>v. Inr ''[8d969eef]''),
      float_of_str = (\<lambda>s. Inl (Exn ValueError ''could not convert string to float'')),
      repr_of = example_repr\<rparr>"

definition example_client :: client where
  "example_client = new_client ''https://botcha.ai/'' None 3 True None None"

definition response_of :: "int \<Rightarrow> json \<Rightarrow> reply" where
  "response_of code body = Returns \<lparr>status_code = code, json_result = Inr body\<rparr>"

definition challenge_reply :: reply where
  "challenge_reply =
     response_of 200 (JObj [(''id'', JStr ''test-challenge-id''),
                            (''problems'', JArr [JNum 123456]), (''timeLimit'', JNum 500)])"

definition token_reply :: "string \<Rightarrow> (string \<times> json) list \<Rightarrow> reply" where
  "token_reply tok extra =
     response_of 200 (JObj ([(''verified'', JBool True), (''token'', JStr tok),
                             (''solveTimeMs'', JNum 42)] @ extra))"




text \<open>A session with the refresh token \<open>rt\<close> and one reply of the network.\<close>

definition refresh_world :: "json \<Rightarrow> reply \<Rightarrow> world" where
  "refresh_world rt rp =
     (world_of example_client 1000 [(2, rp)])
       \<lparr>self_token := JStr ''token-0'', self_token_expires_at := 1010, self_refresh_token := rt\<rparr>"

text \<open>
  A session that holds a good token, with or without a refresh token, and the replies of
  the network to one \<open>fetch\<close>.
\<close>

definition fetch_world :: "json \<Rightarrow> reply list \<Rightarrow> world" where
  "fetch_world rt rps =
     (world_of example_client 1000 (map (\<lambda>rp. (0, rp)) rps))
       \<lparr>self_token := JStr ''token-0'', self_token_expires_at := 5000, self_refresh_token := rt\<rparr>"

definition example_url :: string where
  "example_url = ''https://api.example.com/data''"

text \<open>Replies of a protected resource and of the refresh endpoint.\<close>

definition unauthorized :: reply where
  "unauthorized = response_of 401 (JObj [(''error'', JStr ''Unauthorized'')])"

definition success :: reply where
  "success = response_of 200 (JObj [(''result'', JStr ''success'')])"

definition refreshed :: reply where
  "refreshed = response_of 200 (JObj [(''access_token'', JStr ''token-9''), (''expires_in'', JNum 300)])"

section \<open>Properties of the verifier\<close>

lemma verify_try_shape:
  "verify_try decode repr tok secret options = Inr r \<Longrightarrow>
     (valid r \<and> payload r \<noteq> None \<and> error r = None)
     \<or> (\<not> valid r \<and> payload r = None \<and> error r \<noteq> None)"
  by (auto simp: verify_try_def invalid_def Let_def split: sum.splits option.splits if_splits)

lemma verify_try_decode_raises:
  "decode tok secret (audience_kwarg options) = Inl e \<Longrightarrow>
     verify_try decode repr tok secret options = Inl e"
  by (simp add: verify_try_def)

text \<open>
  C5: whatever the token, the secret and the options, and whatever the JWT decoder does,
  \<open>verify_botcha_token\<close> returns a \<open>VerifyResult\<close> and no exception reaches the caller.
  The result is valid with a payload and no error, or invalid with an error message and no
  payload. An exception of the decoder becomes an invalid result: \<open>Token has expired\<close>
  for an expired signature, \<open>Invalid token: \<close> and the decoder's message for any other
  invalid token (bad signature, malformed token, missing required claim), and
  \<open>Token verification failed: \<close> and the message for any other exception. (The
  exceptions of the model are the subclasses of \<open>Exception\<close>; an interrupt of the
  interpreter is not one.)
\<close>

theorem verify_botcha_token_never_raises:
  "\<exists>r. verify_botcha_token decode repr tok secret options = Inr r
       \<and> (valid r \<longrightarrow> payload r \<noteq> None \<and> error r = None)
       \<and> (\<not> valid r \<longrightarrow> payload r = None \<and> error r \<noteq> None)
       \<and> (\<forall>c m. decode tok secret (audience_kwarg options) = Inl (Exn c m) \<longrightarrow>
             \<not> valid r
             \<and> error r = Some (if is_a c ExpiredSignatureError then ''Token has expired''
                               else if is_a c InvalidTokenError then ''Invalid token: '' @ m
                               else ''Token verification failed: '' @ m))"
proof (cases "verify_try decode repr tok secret options")
  case (Inl e)
  have "\<And>c m. decode tok secret (audience_kwarg options) = Inl (Exn c m) \<Longrightarrow> e = Exn c m"
    using Inl verify_try_decode_raises[of decode tok secret options _ repr] by simp
  with Inl show ?thesis
    by (cases e) (auto simp: verify_botcha_token_def invalid_def)
next
  case (Inr r)
  have "\<And>e. decode tok secret (audience_kwarg options) \<noteq> Inl e"
    using Inr verify_try_decode_raises[of decode tok secret options _ repr] by auto
  with Inr verify_try_shape[OF Inr] show ?thesis
    by (auto simp: verify_botcha_token_def)
qed

theorem verify_botcha_token_never_raises_witness:
  "\<exists>r. verify_botcha_token example_decode example_repr ''example.token.aud'' ''wrong-secret'' None
          = Inr r
       \<and> \<not> valid r \<and> payload r = None
       \<and> error r = Some ''Invalid token: Signature verification failed''"
  using verify_botcha_token_never_raises
    [of example_decode example_repr "''example.token.aud''" "''wrong-secret''" None]
  by (auto simp: example_decode_def audience_kwarg_def)




section \<open>Properties of the client\<close>

subsection \<open>Actions only add to the requests sent\<close>

lemma appendsI: "(\<And>w. \<exists>new. sent (snd (m w)) = sent w @ new \<and> list_all P new) \<Longrightarrow> appends P m"
  by (simp add: appends_def)

lemma appendsD: "appends P m \<Longrightarrow> \<exists>new. sent (snd (m w)) = sent w @ new \<and> list_all P new"
  by (simp add: appends_def)

lemma appends_ok: "appends P (ok a)"
  by (simp add: appends_def ok_def)

lemma appends_raise: "appends P (raise e)"
  by (simp add: appends_def raise_def)

lemma appends_lift: "appends P (lift x)"
  by (simp add: appends_def lift_def)

lemma appends_reads: "appends P (reads f)"
  by (simp add: appends_def reads_def)

lemma appends_modify: "(\<And>w. sent (f w) = sent w) \<Longrightarrow> appends P (modify f)"
  by (simp add: appends_def modify_def)

lemma appends_send: "P rq \<Longrightarrow> appends P (send rq)"
  by (auto simp: appends_def send_def split: list.splits prod.splits)

lemma appends_seq:
  assumes m: "appends P m" and f: "\<And>a. appends P (f a)"
  shows "appends P (seq m f)"
proof (rule appendsI)
  fix w :: world
  obtain r w1 where mw: "m w = (r, w1)" by (cases "m w")
  from appendsD[OF m, of w] mw obtain n1 where n1: "sent w1 = sent w @ n1" "list_all P n1"
    by auto
  show "\<exists>new. sent (snd (seq m f w)) = sent w @ new \<and> list_all P new"
  proof (cases r)
    case (Inl e)
    with mw n1 show ?thesis by (auto simp: seq_def)
  next
    case (Inr a)
    from appendsD[OF f, of a w1] obtain n2 where
      n2: "sent (snd (f a w1)) = sent w1 @ n2" "list_all P n2" by auto
    with mw n1 Inr have "sent (snd (seq m f w)) = sent w @ (n1 @ n2) \<and> list_all P (n1 @ n2)"
      by (simp add: seq_def)
    then show ?thesis by blast
  qed
qed

lemma appends_catch:
  assumes m: "appends P m" and h: "appends P h"
  shows "appends P (catch m p h)"
proof (rule appendsI)
  fix w :: world
  obtain r w1 where mw: "m w = (r, w1)" by (cases "m w")
  from appendsD[OF m, of w] mw obtain n1 where n1: "sent w1 = sent w @ n1" "list_all P n1"
    by auto
  from appendsD[OF h, of w1] obtain n2 where
    n2: "sent (snd (h w1)) = sent w1 @ n2" "list_all P n2" by auto
  show "\<exists>new. sent (snd (catch m p h w)) = sent w @ new \<and> list_all P new"
  proof (cases r)
    case (Inl e)
    show ?thesis
    proof (cases "p (exn_class_of e)")
      case True
      with mw n1 n2 Inl have "sent (snd (catch m p h w)) = sent w @ (n1 @ n2) \<and> list_all P (n1 @ n2)"
        by (simp add: catch_def)
      then show ?thesis by blast
    next
      case False
      with mw n1 Inl show ?thesis by (auto simp: catch_def)
    qed
  next
    case (Inr a)
    with mw n1 show ?thesis by (auto simp: catch_def)
  qed
qed

lemma appends_if: "appends P m \<Longrightarrow> appends P n \<Longrightarrow> appends P (if c then m else n)"
  by simp

lemma appends_client_get: "P \<lparr>rq_call = Get, rq_method = ''GET'', rq_url = u, rq_headers = [],
           rq_json = None, rq_kwargs = []\<rparr> \<Longrightarrow> appends P (client_get u)"
  by (simp add: client_get_def appends_send)

lemma appends_client_post: "P \<lparr>rq_call = Post, rq_method = ''POST'', rq_url = u, rq_headers = [],
           rq_json = Some b, rq_kwargs = []\<rparr> \<Longrightarrow> appends P (client_post u b)"
  by (simp add: client_post_def appends_send)

lemma appends_cache_token_response: "appends P (cache_token_response L now vd)"
  unfolding cache_token_response_def
  by (intro appends_seq appends_lift appends_modify appends_if appends_ok appends_reads) simp_all

lemma appends_get_token:
  assumes "\<And>rq. rq_call rq \<noteq> Request \<Longrightarrow> P rq"
  shows "appends P (get_token L)"
proof (rule appendsI)
  fix w :: world
  let ?m = "seq (client_get (token_url w)) (\<lambda>challenge_response.
          seq (lift (raise_for_status challenge_response)) (\<lambda>_.
          seq (lift (json_result challenge_response)) (\<lambda>challenge_data.
          seq (lift (py_getitem challenge_data ''id'')) (\<lambda>cid.
          seq (lift (py_getitem challenge_data ''problems'')) (\<lambda>problems.
          seq (lift (py_getitem challenge_data ''timeLimit'')) (\<lambda>time_limit.
          seq (lift (solve_botcha L problems)) (\<lambda>solutions.
          seq (client_post (self_base_url w @ ''/v1/token/verify'')
                 (verify_payload w cid solutions)) (\<lambda>verify_response.
          seq (lift (raise_for_status verify_response)) (\<lambda>_.
          seq (lift (json_result verify_response)) (\<lambda>verify_data.
            cache_token_response L (clock w) verify_data))))))))))"
  have "appends P ?m"
    by (intro appends_seq appends_lift appends_client_get appends_client_post
          appends_cache_token_response assms) simp_all
  from appendsD[OF this, of w] show "\<exists>new. sent (snd (get_token L w)) = sent w @ new \<and> list_all P new"
    by (auto simp: get_token_def Let_def)
qed


lemma appends_client_request:
  "(map_of kw ''method'' = None \<Longrightarrow> map_of kw ''url'' = None \<Longrightarrow>
     P \<lparr>rq_call = Request, rq_method = m, rq_url = u, rq_headers = hdrs,
              rq_json = None, rq_kwargs = kw\<rparr>) \<Longrightarrow> appends P (client_request m u hdrs kw)"
  by (auto simp: client_request_def appends_send appends_raise)

lemma appends_handle_403: "appends (get_of u) (handle_403 L u hdrs kw resp)"
  unfolding handle_403_def
  by (intro appends_if appends_catch appends_seq appends_lift appends_ok appends_reads
        appends_client_request) (simp_all add: get_of_def)


lemma appends_case_option: "appends P n \<Longrightarrow> (\<And>x. appends P (f x)) \<Longrightarrow> appends P (case opt of None \<Rightarrow> n | Some x \<Rightarrow> f x)"
  by (cases opt) simp_all

subsection \<open>What a call that returns has done\<close>

lemma seq_Inr:
  "seq m f w = (Inr b, w') \<longleftrightarrow> (\<exists>a w1. m w = (Inr a, w1) \<and> f a w1 = (Inr b, w'))"
  by (auto simp: seq_def split: prod.splits sum.splits)

lemma lift_Inr: "lift x w = (Inr a, w') \<longleftrightarrow> x = Inr a \<and> w' = w"
  by (auto simp: lift_def)

lemma ok_eq: "ok a w = (r, w') \<longleftrightarrow> r = Inr a \<and> w' = w"
  by (auto simp: ok_def)

lemma reads_Inr: "reads f w = (Inr a, w') \<longleftrightarrow> a = f w \<and> w' = w"
  by (auto simp: reads_def)

lemma modify_Inr: "modify f w = (Inr a, w') \<longleftrightarrow> w' = f w"
  by (auto simp: modify_def)

lemma send_Inr:
  "send rq w = (Inr resp, w') \<longleftrightarrow>
     (\<exists>dt rest. replies w = (dt, Returns resp) # rest
        \<and> w' = w\<lparr>clock := clock w + dt, replies := rest, sent := sent w @ [rq]\<rparr>)"
  by (auto simp: send_def split: list.splits reply.splits)

lemma py_getitem_Inr:
  "py_getitem v k = Inr x \<longleftrightarrow> (\<exists>kvs. v = JObj kvs \<and> map_of kvs k = Some x)"
  by (cases v) (auto split: option.splits)

lemma refresh_token_Inr:
  assumes "refresh_token w = (Inr tok, w')"
  shows "\<exists>dt r rest kvs. truthy (self_refresh_token w)
      \<and> replies w = (dt, Returns r) # rest \<and> raise_for_status r = Inr ()
      \<and> json_result r = Inr (JObj kvs) \<and> map_of kvs ''access_token'' = Some tok
      \<and> (\<exists>t. (case map_of kvs ''expires_in'' of None \<Rightarrow> Inr (clock w + dt + 300)
                 | Some v \<Rightarrow> py_add (clock w + dt) v) = Inr t
           \<and> w' = w\<lparr>clock := clock w + dt, replies := rest,
                 sent := sent w @ [token_refresh_rq w],
                 self_token := tok, self_token_expires_at := t\<rparr>)"
  using assms
  unfolding refresh_token_def
  by (auto simp: seq_Inr lift_Inr reads_Inr modify_Inr send_Inr client_post_def py_getitem_Inr
      token_refresh_rq_def split: if_splits option.splits)

lemma cache_token_response_Inr:
  assumes "cache_token_response L now vd w = (Inr tok, w')"
  shows "\<exists>kvs t. vd = JObj kvs \<and> map_of kvs ''verified'' \<noteq> None
      \<and> map_of kvs ''token'' = Some tok \<and> map_of kvs ''solveTimeMs'' \<noteq> None
      \<and> (case map_of kvs ''expires_in'' of None \<Rightarrow> Inr (jwt_expiry L now tok)
            | Some v \<Rightarrow> py_add now v) = Inr t
      \<and> w' = w\<lparr>self_token := tok,
               self_refresh_token := (case map_of kvs ''refresh_token'' of
                                        None \<Rightarrow> self_refresh_token w | Some rt \<Rightarrow> rt),
               self_token_expires_at := t\<rparr>"
  using assms
  unfolding cache_token_response_def
  by (auto simp: seq_Inr lift_Inr reads_Inr modify_Inr ok_eq py_getitem_Inr
      split: if_splits option.splits)


lemma get_token_miss_Inr:
  assumes miss: "\<not> cache_valid w (clock w)" and res: "get_token L w = (Inr tok, w')"
  shows "\<exists>d1 r1 d2 r2 rest ckvs cid problems solutions kvs t.
      replies w = (d1, Returns r1) # (d2, Returns r2) # rest
      \<and> raise_for_status r1 = Inr () \<and> json_result r1 = Inr (JObj ckvs)
      \<and> map_of ckvs ''id'' = Some cid \<and> map_of ckvs ''problems'' = Some problems
      \<and> map_of ckvs ''timeLimit'' \<noteq> None \<and> solve_botcha L problems = Inr solutions
      \<and> raise_for_status r2 = Inr () \<and> json_result r2 = Inr (JObj kvs)
      \<and> map_of kvs ''verified'' \<noteq> None
      \<and> map_of kvs ''token'' = Some tok \<and> map_of kvs ''solveTimeMs'' \<noteq> None
      \<and> (case map_of kvs ''expires_in'' of None \<Rightarrow> Inr (jwt_expiry L (clock w) tok)
            | Some v \<Rightarrow> py_add (clock w) v) = Inr t
      \<and> w' = w\<lparr>clock := clock w + d1 + d2, replies := rest,
               sent := sent w @ [token_get_rq w, token_verify_rq w cid solutions],
               self_token := tok,
               self_refresh_token := (case map_of kvs ''refresh_token'' of
                                        None \<Rightarrow> self_refresh_token w | Some rt \<Rightarrow> rt),
               self_token_expires_at := t\<rparr>"
proof -
  from miss res obtain r1 w1 cd cid problems tl solutions r2 w2 vd where
    s1: "client_get (token_url w) w = (Inr r1, w1)" and
    ok1: "raise_for_status r1 = Inr ()" and j1: "json_result r1 = Inr cd" and
    g1: "py_getitem cd ''id'' = Inr cid" and g2: "py_getitem cd ''problems'' = Inr problems" and
    g3: "py_getitem cd ''timeLimit'' = Inr tl" and sv: "solve_botcha L problems = Inr solutions" and
    s2: "client_post (self_base_url w @ ''/v1/token/verify'') (verify_payload w cid solutions) w1 = (Inr r2, w2)" and
    ok2: "raise_for_status r2 = Inr ()" and j2: "json_result r2 = Inr vd" and
    c: "cache_token_response L (clock w) vd w2 = (Inr tok, w')"
    by (auto simp: get_token_def Let_def seq_Inr lift_Inr)
  from s1 obtain d1 rest1 where
    w1: "replies w = (d1, Returns r1) # rest1"
        "w1 = w\<lparr>clock := clock w + d1, replies := rest1, sent := sent w @ [token_get_rq w]\<rparr>"
    by (auto simp: client_get_def send_Inr token_get_rq_def)
  from s2 w1 obtain d2 rest where
    w2: "rest1 = (d2, Returns r2) # rest"
        "w2 = w1\<lparr>clock := clock w1 + d2, replies := rest,
                 sent := sent w1 @ [token_verify_rq w cid solutions]\<rparr>"
    by (auto simp: client_post_def send_Inr token_verify_rq_def)
  from cache_token_response_Inr[OF c] obtain kvs t where
    k: "vd = JObj kvs" "map_of kvs ''verified'' \<noteq> None" "map_of kvs ''token'' = Some tok"
       "map_of kvs ''solveTimeMs'' \<noteq> None"
       "(case map_of kvs ''expires_in'' of None \<Rightarrow> Inr (jwt_expiry L (clock w) tok)
            | Some v \<Rightarrow> py_add (clock w) v) = Inr t"
       "w' = w2\<lparr>self_token := tok,
               self_refresh_token := (case map_of kvs ''refresh_token'' of
                                        None \<Rightarrow> self_refresh_token w2 | Some rt \<Rightarrow> rt),
               self_token_expires_at := t\<rparr>"
    by blast
  from g1 g2 g3 obtain ckvs where
    ck: "cd = JObj ckvs" "map_of ckvs ''id'' = Some cid" "map_of ckvs ''problems'' = Some problems"
        "map_of ckvs ''timeLimit'' \<noteq> None"
    by (auto simp: py_getitem_Inr)
  have "w' = w\<lparr>clock := clock w + d1 + d2, replies := rest,
               sent := sent w @ [token_get_rq w, token_verify_rq w cid solutions],
               self_token := tok,
               self_refresh_token := (case map_of kvs ''refresh_token'' of
                                        None \<Rightarrow> self_refresh_token w | Some rt \<Rightarrow> rt),
               self_token_expires_at := t\<rparr>"
    using k(6) w2(2) w1(2) by (cases "map_of kvs ''refresh_token''") simp_all
  with w1(1) w2(1) ok1 j1 ck sv ok2 j2 k(1-5) show ?thesis
    by blast
qed


lemma appends_case_prod: "(\<And>a b c. appends P (f a b c)) \<Longrightarrow> appends P (case x of (a, b, c) \<Rightarrow> f a b c)"
  by (cases x) simp


subsection \<open>\<open>refresh_token\<close>\<close>

lemmas example_defs = example_lib_def example_client_def new_client_def rstrip_slash_def
  world_of_def client.extend_def response_of_def challenge_reply_def token_reply_def
  example_url_def example_repr_def

lemmas run_defs = get_token_def refresh_token_def cache_valid_def cache_token_response_def
  client_get_def client_post_def client_request_def send_def raise_for_status_def
  token_url_def verify_payload_def jwt_expiry_def jwt_expiry_try_def add_padding_def
  and_then_def quoted_def seq_def lift_def ok_def raise_def reads_def modify_def catch_def

text \<open>
  C8: with no refresh token cached (\<open>self._refresh_token\<close> is \<open>None\<close> or empty),
  \<open>refresh_token\<close> raises \<open>ValueError\<close> and the world is the one it started in: the
  cached access token, its expiry and the refresh token are unchanged, no reply of the
  network is consumed and no request is sent.
\<close>

theorem refresh_token_requires_refresh_token:
  "\<not> truthy (self_refresh_token w) \<Longrightarrow>
     refresh_token w = (Inl (Exn ValueError ''No refresh token available''), w)"
  by (simp add: refresh_token_def)

theorem refresh_token_requires_refresh_token_witness:
  "\<not> truthy (self_refresh_token (refresh_world JNull challenge_reply))
   \<and> refresh_token (refresh_world JNull challenge_reply)
       = (Inl (Exn ValueError ''No refresh token available''), refresh_world JNull challenge_reply)
   \<and> sent (refresh_world JNull challenge_reply) = []"
  using refresh_token_requires_refresh_token[of "refresh_world JNull challenge_reply"]
  by (simp add: refresh_world_def world_of_def client.extend_def)

text \<open>
  C9: when \<open>refresh_token\<close> returns, the network has answered its one request with a JSON
  object; the cached access token is that object's \<open>access_token\<close>, which is also the
  value returned; the cached refresh token is the one held before the call; and the expiry
  is the clock reading after the response plus \<open>expires_in\<close>, or plus 300 when the
  response has no \<open>expires_in\<close>.
\<close>

theorem refresh_token_replaces_access_token:
  assumes "refresh_token w = (Inr tok, w')"
  shows "\<exists>dt r rest refresh_data.
      replies w = (dt, Returns r) # rest \<and> json_result r = Inr (JObj refresh_data)
      \<and> map_of refresh_data ''access_token'' = Some tok
      \<and> self_token w' = tok
      \<and> self_refresh_token w' = self_refresh_token w
      \<and> clock w' = clock w + dt
      \<and> sent w' = sent w @ [token_refresh_rq w]
      \<and> (\<forall>x. map_of refresh_data ''expires_in'' = Some (JNum x) \<longrightarrow>
            self_token_expires_at w' = clock w' + x)
      \<and> (map_of refresh_data ''expires_in'' = None \<longrightarrow>
            self_token_expires_at w' = clock w' + 300)"
proof -
  from refresh_token_Inr[OF assms] obtain dt r rest kvs t where
    h: "replies w = (dt, Returns r) # rest" "json_result r = Inr (JObj kvs)"
       "map_of kvs ''access_token'' = Some tok"
       "(case map_of kvs ''expires_in'' of None \<Rightarrow> Inr (clock w + dt + 300)
                 | Some v \<Rightarrow> py_add (clock w + dt) v) = Inr t"
       "w' = w\<lparr>clock := clock w + dt, replies := rest,
                 sent := sent w @ [token_refresh_rq w],
                 self_token := tok, self_token_expires_at := t\<rparr>"
    by blast
  have e1: "\<And>x. map_of kvs ''expires_in'' = Some (JNum x) \<Longrightarrow> t = clock w + dt + x"
    using h(4) by simp
  have e2: "map_of kvs ''expires_in'' = None \<Longrightarrow> t = clock w + dt + 300"
    using h(4) by simp
  show ?thesis
    using h(1-3) e1 e2 by (simp add: h(5))
qed

theorem refresh_token_replaces_access_token_witness:
  "refresh_token (refresh_world (JStr ''refresh-1'')
        (response_of 200 (JObj [(''access_token'', JStr ''token-9''), (''expires_in'', JNum 300)])))
     = (Inr (JStr ''token-9''),
        (refresh_world (JStr ''refresh-1'')
          (response_of 200 (JObj [(''access_token'', JStr ''token-9''), (''expires_in'', JNum 300)])))
          \<lparr>clock := 1002, replies := [],
           sent := [token_refresh_rq (refresh_world (JStr ''refresh-1'') challenge_reply)],
           self_token := JStr ''token-9'', self_token_expires_at := 1302\<rparr>)"
  using refresh_token_replaces_access_token
    [of "refresh_world (JStr ''refresh-1'')
        (response_of 200 (JObj [(''access_token'', JStr ''token-9''), (''expires_in'', JNum 300)]))"
        "JStr ''token-9''"
        "(refresh_world (JStr ''refresh-1'')
          (response_of 200 (JObj [(''access_token'', JStr ''token-9''), (''expires_in'', JNum 300)])))
          \<lparr>clock := 1002, replies := [],
           sent := [token_refresh_rq (refresh_world (JStr ''refresh-1'') challenge_reply)],
           self_token := JStr ''token-9'', self_token_expires_at := 1302\<rparr>"]
  by (simp add: refresh_world_def token_refresh_rq_def example_defs run_defs)

subsection \<open>The cache test of \<open>get_token\<close>\<close>

lemma sent_seq_send:
  assumes "\<And>a. appends P (f a)"
  shows "\<exists>more. sent (snd (seq (send rq) f w)) = sent w @ rq # more"
proof (cases "send rq w")
  case (Pair r w1)
  then have s1: "sent w1 = sent w @ [rq]"
    by (auto simp: send_def split: list.splits prod.splits)
  show ?thesis
  proof (cases r)
    case (Inl e)
    with Pair s1 show ?thesis by (simp add: seq_def)
  next
    case (Inr a)
    from appendsD[OF assms, of a w1] obtain n where "sent (snd (f a w1)) = sent w1 @ n"
      by blast
    with Pair Inr s1 show ?thesis by (simp add: seq_def)
  qed
qed




subsection \<open>The expiry that \<open>get_token\<close> caches\<close>











subsection \<open>Two calls of \<open>get_token\<close> in succession\<close>





subsection \<open>\<open>fetch\<close> after a 401\<close>

lemma client_request_Inr:
  "client_request m u hdrs kw w = (Inr r, w') \<longleftrightarrow>
     map_of kw ''method'' = None \<and> map_of kw ''url'' = None
     \<and> (\<exists>dt rest. replies w = (dt, Returns r) # rest
          \<and> w' = w\<lparr>clock := clock w + dt, replies := rest,
                   sent := sent w @ [\<lparr>rq_call = Request, rq_method = m, rq_url = u,
                      rq_headers = hdrs, rq_json = None, rq_kwargs = kw\<rparr>]\<rparr>)"
  by (auto simp: client_request_def raise_def send_Inr)

lemma refresh_and_resend_refresh_fails:
  "refresh_token w = (Inl e, w') \<Longrightarrow> refresh_and_resend L u hdrs kw w = (Inr None, w')"
  by (simp add: refresh_and_resend_def catch_def seq_def ok_def)

lemma refresh_and_resend_resent:
  "refresh_token w = (Inr t, w3) \<Longrightarrow>
   client_request ''GET'' u (with_bearer L hdrs t) kw w3 = (Inr r2, w4) \<Longrightarrow>
   refresh_and_resend L u hdrs kw w
     = (Inr (if status_code r2 \<noteq> 401 then Some r2 else None), w4)"
  by (simp add: refresh_and_resend_def catch_def seq_def ok_def)

lemma fetch_after_401:
  assumes "self_auto_token w" and "get_token L w = (Inr tok, w1)"
    and "client_request ''GET'' u (with_bearer L hdrs tok) kw w1 = (Inr r1, w2)"
    and "status_code r1 = 401"
  shows "fetch L u hdrs kw w =
     seq (handle_401 L u (with_bearer L hdrs tok) kw) (\<lambda>(returned, resp1, hdrs2).
       if returned then ok resp1 else handle_403 L u hdrs2 kw resp1) w2"
  using assms by (simp add: fetch_def seq_def reads_def ok_def)

lemma handle_401_returns:
  assumes "truthy (self_refresh_token w)"
    and "refresh_and_resend L u hdrs kw w = (Inr (Some r), w')"
  shows "handle_401 L u hdrs kw w = (Inr (True, r, hdrs), w')"
  using assms by (simp add: handle_401_def seq_def reads_def ok_def)

lemma handle_401_falls_back:
  assumes "(\<not> truthy (self_refresh_token w) \<and> wx = w)
     \<or> (truthy (self_refresh_token w) \<and> refresh_and_resend L u hdrs kw w = (Inr None, wx))"
  shows "handle_401 L u hdrs kw w = reacquire L u hdrs kw (clear_session wx)"
  using assms by (auto simp: handle_401_def reacquire_def seq_def reads_def ok_def modify_def)

lemma clear_session_not_valid: "\<not> cache_valid (clear_session w) t"
  by (simp add: cache_valid_def clear_session_def)

lemma handle_403_other: "status_code r \<noteq> 403 \<Longrightarrow> handle_403 L u hdrs kw r = ok r"
  by (simp add: handle_403_def)

lemma sent_first_seq:
  assumes "\<exists>more. sent (snd (m w)) = sent w @ rq # more" and "\<And>a. appends P (f a)"
  shows "\<exists>more. sent (snd (seq m f w)) = sent w @ rq # more"
proof (cases "m w")
  case (Pair r w1)
  with assms(1) obtain more where s1: "sent w1 = sent w @ rq # more" by auto
  show ?thesis
  proof (cases r)
    case (Inl e)
    with Pair s1 show ?thesis by (simp add: seq_def)
  next
    case (Inr a)
    from appendsD[OF assms(2), of a w1] obtain n where "sent (snd (f a w1)) = sent w1 @ n"
      by blast
    with Pair Inr s1 show ?thesis by (simp add: seq_def)
  qed
qed

lemma sent_first_catch:
  assumes "\<exists>more. sent (snd (m w)) = sent w @ rq # more" and "appends P h"
  shows "\<exists>more. sent (snd (catch m p h w)) = sent w @ rq # more"
proof (cases "m w")
  case (Pair r w1)
  with assms(1) obtain more where s1: "sent w1 = sent w @ rq # more" by auto
  from appendsD[OF assms(2), of w1] obtain n where n: "sent (snd (h w1)) = sent w1 @ n"
    by blast
  show ?thesis
  proof (cases r)
    case (Inl e)
    with Pair s1 n show ?thesis by (simp add: catch_def)
  next
    case (Inr a)
    with Pair Inr s1 show ?thesis by (simp add: catch_def)
  qed
qed

lemma refresh_token_sends:
  assumes "truthy (self_refresh_token w)"
  shows "\<exists>more. sent (snd (refresh_token w)) = sent w @ token_refresh_rq w # more"
proof -
  let ?P = "\<lambda>rq::request. True"
  let ?f = "(\<lambda>refresh_response.
            seq (lift (raise_for_status refresh_response)) (\<lambda>_.
            seq (lift (json_result refresh_response)) (\<lambda>refresh_data.
            seq (lift (py_getitem refresh_data ''access_token'')) (\<lambda>tok.
            seq (modify (\<lambda>w. w\<lparr>self_token := tok\<rparr>)) (\<lambda>_.
            seq (reads clock) (\<lambda>now.
            seq (lift (py_in ''expires_in'' refresh_data)) (\<lambda>has_expires_in.
            seq (if has_expires_in then
                   seq (lift (py_getitem refresh_data ''expires_in'')) (\<lambda>expires_in.
                   seq (lift (py_add now expires_in)) (\<lambda>t.
                     modify (\<lambda>w. w\<lparr>self_token_expires_at := t\<rparr>)))
                 else modify (\<lambda>w. w\<lparr>self_token_expires_at := now + 300\<rparr>)) (\<lambda>_.
            reads self_token))))))))"
  have "\<And>a. appends ?P (?f a)"
    by (intro appends_seq appends_lift appends_modify appends_if appends_reads) simp_all
  from sent_seq_send[of ?P ?f "token_refresh_rq w" w, OF this] assms show ?thesis
    by (simp add: refresh_token_def client_post_def token_refresh_rq_def)
qed

lemma refresh_and_resend_sends:
  assumes "truthy (self_refresh_token w)"
  shows "\<exists>more. sent (snd (refresh_and_resend L u hdrs kw w)) = sent w @ token_refresh_rq w # more"
  unfolding refresh_and_resend_def
  by (intro sent_first_catch[where P = "get_of u"] sent_first_seq[where P = "get_of u"]
        refresh_token_sends[OF assms] appends_ok appends_seq appends_client_request appends_if)
     (simp_all add: get_of_def)

lemma handle_401_sends:
  assumes "truthy (self_refresh_token w)"
  shows "\<exists>more. sent (snd (handle_401 L u hdrs kw w)) = sent w @ token_refresh_rq w # more"
proof -
  let ?k = "(\<lambda>early.
       case early of
         Some r \<Rightarrow> ok (True, r, hdrs)
       | None \<Rightarrow>
           seq (modify clear_session) (\<lambda>_.
           seq (get_token L) (\<lambda>tok.
           seq (client_request ''GET'' u (with_bearer L hdrs tok) kw) (\<lambda>resp2.
             ok (False, resp2, with_bearer L hdrs tok)))))"
  have k: "\<And>a. appends (get_of u) (?k a)"
    by (intro appends_case_option appends_seq appends_ok appends_modify appends_get_token
          appends_client_request) (simp_all add: get_of_def clear_session_def)
  have "handle_401 L u hdrs kw w = seq (refresh_and_resend L u hdrs kw) ?k w"
    using assms by (simp add: handle_401_def seq_def reads_def)
  with sent_first_seq[where m = "refresh_and_resend L u hdrs kw" and w = w and f = ?k
      and P = "get_of u", OF refresh_and_resend_sends[OF assms, of L u hdrs kw] k]
  show ?thesis by simp
qed

lemma fetch_401_sends_refresh:
  assumes "self_auto_token w" and "get_token L w = (Inr tok, w1)"
    and "client_request ''GET'' u (with_bearer L hdrs tok) kw w1 = (Inr r1, w2)"
    and "status_code r1 = 401" and "truthy (self_refresh_token w2)"
  shows "\<exists>more. sent (snd (fetch L u hdrs kw w)) = sent w2 @ token_refresh_rq w2 # more"
proof -
  let ?k = "(\<lambda>(returned, resp1, hdrs2).
       if returned then ok resp1 else handle_403 L u hdrs2 kw resp1)"
  have k: "\<And>a. appends (get_of u) (?k a)"
    by (intro appends_case_prod appends_if appends_ok appends_handle_403)
  from sent_first_seq[where m = "handle_401 L u (with_bearer L hdrs tok) kw" and w = w2
      and f = ?k and P = "get_of u",
      OF handle_401_sends[OF assms(5), of L u "with_bearer L hdrs tok" kw] k]
  show ?thesis by (simp add: fetch_after_401[OF assms(1-4)])
qed

lemma reacquire_result:
  assumes g: "get_token L (clear_session wx) = (Inr tok', w5)"
    and r: "client_request ''GET'' u (with_bearer L hdrs tok') kw w5 = (Inr r3, w6)"
  shows "reacquire L u hdrs kw (clear_session wx) = (Inr (False, r3, with_bearer L hdrs tok'), w6)"
    and "\<exists>cid solutions. sent w6 = sent wx @ [token_get_rq (clear_session wx),
           token_verify_rq (clear_session wx) cid solutions,
           resource_rq u (with_bearer L hdrs tok') kw]"
proof -
  show "reacquire L u hdrs kw (clear_session wx) = (Inr (False, r3, with_bearer L hdrs tok'), w6)"
    using g r by (simp add: reacquire_def seq_def ok_def)
  from get_token_miss_Inr[OF clear_session_not_valid g] obtain cid solutions where
    "sent w5 = sent (clear_session wx) @ [token_get_rq (clear_session wx),
           token_verify_rq (clear_session wx) cid solutions]"
    by auto
  moreover from r have "sent w6 = sent w5 @ [resource_rq u (with_bearer L hdrs tok') kw]"
    by (auto simp: client_request_Inr resource_rq_def)
  moreover have "sent (clear_session wx) = sent wx" by (simp add: clear_session_def)
  ultimately have "sent w6 = sent wx @ [token_get_rq (clear_session wx),
           token_verify_rq (clear_session wx) cid solutions,
           resource_rq u (with_bearer L hdrs tok') kw]"
    by simp
  then show "\<exists>cid solutions. sent w6 = sent wx @ [token_get_rq (clear_session wx),
           token_verify_rq (clear_session wx) cid solutions,
           resource_rq u (with_bearer L hdrs tok') kw]"
    by blast
qed

lemma fetch_401_returns_resend:
  assumes "self_auto_token w" and "get_token L w = (Inr tok, w1)"
    and "client_request ''GET'' u (with_bearer L hdrs tok) kw w1 = (Inr r1, w2)"
    and "status_code r1 = 401"
    and "truthy (self_refresh_token w2)" and "refresh_token w2 = (Inr t, w3)"
    and "client_request ''GET'' u (with_bearer L (with_bearer L hdrs tok) t) kw w3 = (Inr r2, w4)"
    and "status_code r2 \<noteq> 401"
  shows "fetch L u hdrs kw w = (Inr r2, w4)"
proof -
  from refresh_and_resend_resent[OF assms(6,7)] assms(8)
  have "refresh_and_resend L u (with_bearer L hdrs tok) kw w2 = (Inr (Some r2), w4)" by simp
  from handle_401_returns[OF assms(5) this] show ?thesis
    by (simp add: fetch_after_401[OF assms(1-4)] seq_def ok_def)
qed

lemma fetch_401_reacquires:
  assumes "self_auto_token w" and "get_token L w = (Inr tok, w1)"
    and "client_request ''GET'' u (with_bearer L hdrs tok) kw w1 = (Inr r1, w2)"
    and "status_code r1 = 401"
    and fb: "(\<not> truthy (self_refresh_token w2) \<and> wx = w2)
       \<or> (truthy (self_refresh_token w2) \<and> (\<exists>e. refresh_token w2 = (Inl e, wx)))
       \<or> (truthy (self_refresh_token w2) \<and> (\<exists>t w3 r2. refresh_token w2 = (Inr t, w3)
            \<and> client_request ''GET'' u (with_bearer L (with_bearer L hdrs tok) t) kw w3 = (Inr r2, wx)
            \<and> status_code r2 = 401))"
    and g: "get_token L (clear_session wx) = (Inr tok', w5)"
    and r: "client_request ''GET'' u (with_bearer L (with_bearer L hdrs tok) tok') kw w5 = (Inr r3, w6)"
  shows "fetch L u hdrs kw w = handle_403 L u (with_bearer L (with_bearer L hdrs tok) tok') kw r3 w6"
proof -
  from fb have "(\<not> truthy (self_refresh_token w2) \<and> wx = w2)
     \<or> (truthy (self_refresh_token w2)
         \<and> refresh_and_resend L u (with_bearer L hdrs tok) kw w2 = (Inr None, wx))"
    using refresh_and_resend_refresh_fails[of w2 _ wx L u "with_bearer L hdrs tok" kw]
      refresh_and_resend_resent[of w2 _ _ u L "with_bearer L hdrs tok" kw _ wx]
    by auto
  from handle_401_falls_back[OF this] reacquire_result(1)[OF g r]
  have "handle_401 L u (with_bearer L hdrs tok) kw w2
      = (Inr (False, r3, with_bearer L (with_bearer L hdrs tok) tok'), w6)"
    by simp
  then show ?thesis
    by (simp add: fetch_after_401[OF assms(1-4)] seq_def)
qed

lemmas fetch_defs = fetch_def handle_401_def handle_403_def refresh_and_resend_def
  with_bearer_def clear_session_def fetch_world_def

text \<open>
  C3: let \<open>fetch\<close> run with \<open>auto_token\<close> set, and let its first response be a 401.
  If a refresh token is cached, the next request is the one of \<open>refresh_token\<close>; and if
  the refresh succeeds and the resend with the refreshed token is not a 401, \<open>fetch\<close>
  returns that response. If no refresh token is cached, or the refresh raises, or the
  resend is a 401 again, the whole session is cleared, \<open>get_token\<close> runs one challenge
  exchange from the cleared session, the request is sent once more, and its response goes
  to the 403 step: \<open>fetch\<close> returns it as it is unless its status is 403, so a second
  401 is returned with nothing more sent.
\<close>

theorem fetch_401_refresh_then_reacquire:
  assumes "self_auto_token w" and "get_token L w = (Inr tok, w1)"
    and "hdrs1 = with_bearer L hdrs tok"
    and "client_request ''GET'' u hdrs1 kw w1 = (Inr r1, w2)" and "status_code r1 = 401"
  shows "(truthy (self_refresh_token w2) \<longrightarrow>
            (\<exists>more. sent (snd (fetch L u hdrs kw w)) = sent w2 @ token_refresh_rq w2 # more))
     \<and> (\<forall>t w3 r2 w4. truthy (self_refresh_token w2) \<and> refresh_token w2 = (Inr t, w3)
            \<and> client_request ''GET'' u (with_bearer L hdrs1 t) kw w3 = (Inr r2, w4)
            \<and> status_code r2 \<noteq> 401 \<longrightarrow>
          fetch L u hdrs kw w = (Inr r2, w4))
     \<and> (\<forall>wx tok' w5 r3 w6.
          ((\<not> truthy (self_refresh_token w2) \<and> wx = w2)
           \<or> (truthy (self_refresh_token w2) \<and> (\<exists>e. refresh_token w2 = (Inl e, wx)))
           \<or> (truthy (self_refresh_token w2) \<and> (\<exists>t w3 r2. refresh_token w2 = (Inr t, w3)
                \<and> client_request ''GET'' u (with_bearer L hdrs1 t) kw w3 = (Inr r2, wx)
                \<and> status_code r2 = 401)))
          \<and> get_token L (clear_session wx) = (Inr tok', w5)
          \<and> client_request ''GET'' u (with_bearer L hdrs1 tok') kw w5 = (Inr r3, w6) \<longrightarrow>
          clear_session wx
            = wx\<lparr>self_token := JNull, self_token_expires_at := 0, self_refresh_token := JNull\<rparr>
          \<and> (\<exists>cid solutions. sent w6 = sent wx @ [token_get_rq (clear_session wx),
                 token_verify_rq (clear_session wx) cid solutions,
                 resource_rq u (with_bearer L hdrs1 tok') kw])
          \<and> fetch L u hdrs kw w = handle_403 L u (with_bearer L hdrs1 tok') kw r3 w6
          \<and> (status_code r3 \<noteq> 403 \<longrightarrow> fetch L u hdrs kw w = (Inr r3, w6)))"
proof (intro conjI allI impI)
  assume "truthy (self_refresh_token w2)"
  with fetch_401_sends_refresh[of w L tok w1 u hdrs kw r1 w2] assms
  show "\<exists>more. sent (snd (fetch L u hdrs kw w)) = sent w2 @ token_refresh_rq w2 # more"
    by simp
next
  fix t w3 r2 w4
  assume "truthy (self_refresh_token w2) \<and> refresh_token w2 = (Inr t, w3)
            \<and> client_request ''GET'' u (with_bearer L hdrs1 t) kw w3 = (Inr r2, w4)
            \<and> status_code r2 \<noteq> 401"
  with fetch_401_returns_resend[of w L tok w1 u hdrs kw r1 w2 t w3 r2 w4] assms
  show "fetch L u hdrs kw w = (Inr r2, w4)" by simp
next
  fix wx tok' w5 r3 w6
  assume h: "((\<not> truthy (self_refresh_token w2) \<and> wx = w2)
           \<or> (truthy (self_refresh_token w2) \<and> (\<exists>e. refresh_token w2 = (Inl e, wx)))
           \<or> (truthy (self_refresh_token w2) \<and> (\<exists>t w3 r2. refresh_token w2 = (Inr t, w3)
                \<and> client_request ''GET'' u (with_bearer L hdrs1 t) kw w3 = (Inr r2, wx)
                \<and> status_code r2 = 401)))
          \<and> get_token L (clear_session wx) = (Inr tok', w5)
          \<and> client_request ''GET'' u (with_bearer L hdrs1 tok') kw w5 = (Inr r3, w6)"
  then have g: "get_token L (clear_session wx) = (Inr tok', w5)"
    and r: "client_request ''GET'' u (with_bearer L hdrs1 tok') kw w5 = (Inr r3, w6)"
    by simp_all
  show "clear_session wx
      = wx\<lparr>self_token := JNull, self_token_expires_at := 0, self_refresh_token := JNull\<rparr>"
    by (simp add: clear_session_def)
  from reacquire_result(2)[OF g r]
  show "\<exists>cid solutions. sent w6 = sent wx @ [token_get_rq (clear_session wx),
                 token_verify_rq (clear_session wx) cid solutions,
                 resource_rq u (with_bearer L hdrs1 tok') kw]" .
  from h fetch_401_reacquires[of w L tok w1 u hdrs kw r1 w2 wx tok' w5 r3 w6] assms
  show f: "fetch L u hdrs kw w = handle_403 L u (with_bearer L hdrs1 tok') kw r3 w6"
    by simp
  assume "status_code r3 \<noteq> 403"
  with f show "fetch L u hdrs kw w = (Inr r3, w6)"
    by (simp add: handle_403_other ok_def)
qed

lemmas world_defs = fetch_world_def unauthorized_def success_def refreshed_def

theorem fetch_401_refresh_then_reacquire_witness:
  "fst (fetch example_lib example_url [] []
          (fetch_world JNull [unauthorized, challenge_reply, token_reply ''token-1'' [], unauthorized]))
     = Inr \<lparr>status_code = 401, json_result = Inr (JObj [(''error'', JStr ''Unauthorized'')])\<rparr>
   \<and> map rq_url (sent (snd (fetch example_lib example_url [] []
          (fetch_world JNull [unauthorized, challenge_reply, token_reply ''token-1'' [], unauthorized]))))
     = [''https://api.example.com/data'', ''https://botcha.ai/v1/token'',
        ''https://botcha.ai/v1/token/verify'', ''https://api.example.com/data'']"
proof -
  let ?W = "fetch_world JNull [unauthorized, challenge_reply, token_reply ''token-1'' [], unauthorized]"
  let ?h1 = "with_bearer example_lib [] (JStr ''token-0'')"
  let ?r1 = "\<lparr>status_code = 401, json_result = Inr (JObj [(''error'', JStr ''Unauthorized'')])\<rparr>"
  let ?W2 = "snd (client_request ''GET'' example_url ?h1 [] ?W)"
  let ?W5 = "snd (get_token example_lib (clear_session ?W2))"
  let ?h2 = "with_bearer example_lib ?h1 (JStr ''token-1'')"
  let ?W6 = "snd (client_request ''GET'' example_url ?h2 [] ?W5)"
  have a: "self_auto_token ?W"
    by (simp add: world_defs example_defs)
  have b: "get_token example_lib ?W = (Inr (JStr ''token-0''), ?W)"
    by (simp add: world_defs example_defs get_token_def cache_valid_def)
  have c: "client_request ''GET'' example_url ?h1 [] ?W = (Inr ?r1, ?W2)"
    by (simp add: prod_eq_iff world_defs example_defs run_defs)
  have d: "status_code ?r1 = 401" by simp
  have nt: "\<not> truthy (self_refresh_token ?W2)"
    by (simp add: world_defs example_defs run_defs)
  have g: "get_token example_lib (clear_session ?W2) = (Inr (JStr ''token-1''), ?W5)"
    by (simp add: prod_eq_iff world_defs example_defs run_defs clear_session_def with_bearer_def
        payload_segment_def)
  have r: "client_request ''GET'' example_url ?h2 [] ?W5 = (Inr ?r1, ?W6)"
    by (simp add: prod_eq_iff world_defs example_defs run_defs clear_session_def with_bearer_def)
  have s: "map rq_url (sent ?W6) = [''https://api.example.com/data'', ''https://botcha.ai/v1/token'',
        ''https://botcha.ai/v1/token/verify'', ''https://api.example.com/data'']"
    by (simp add: world_defs example_defs run_defs clear_session_def with_bearer_def)
  note reacquire = fetch_401_refresh_then_reacquire[OF a b refl c d,
      THEN conjunct2, THEN conjunct2, rule_format,
      where wx = ?W2 and tok' = "JStr ''token-1''" and ?w5.0 = ?W5 and ?r3.0 = ?r1 and ?w6.0 = ?W6]
  have d3: "status_code ?r1 \<noteq> 403" by simp
  from reacquire[OF conjI[OF disjI1[OF conjI[OF nt refl]] conjI[OF g r]]] d3
  have "fetch example_lib example_url [] [] ?W = (Inr ?r1, ?W6)"
    by blast
  with s show ?thesis by simp
qed

subsection \<open>\<open>fetch\<close> after a 403, and the method of its requests\<close>

text \<open>
  A 403 whose body does not parse, or is an object without \<open>challenge\<close>, or whose
  \<open>challenge\<close> is an object without \<open>problems\<close>, is returned as it is and nothing
  is sent.
\<close>

lemma handle_403_not_a_challenge:
  assumes "status_code r = 403"
    and "(\<exists>m. json_result r = Inl (Exn JSONDecodeError m))
       \<or> (\<exists>kvs. json_result r = Inr (JObj kvs)
             \<and> (map_of kvs ''challenge'' = None
                  \<or> (\<exists>ch. map_of kvs ''challenge'' = Some (JObj ch) \<and> map_of ch ''problems'' = None)))"
  shows "handle_403 L u hdrs kw r w = (Inr r, w)"
  using assms by (auto simp: handle_403_def catch_def seq_def lift_def ok_def)

text \<open>
  C4 fails on bodies that are valid JSON but not objects: the handler of lines 312 to 314
  catches \<open>JSONDecodeError\<close> and \<open>KeyError\<close>, and \<open>"challenge" in body\<close> raises
  \<open>TypeError\<close> on a number, \<open>"problems" in body["challenge"]\<close> raises it on
  \<open>null\<close>. A 403 with the body \<open>5\<close>, or with \<open>{"challenge": null}\<close>, makes
  \<open>fetch\<close> raise \<open>TypeError\<close>; a 403 whose body is an object without
  \<open>challenge\<close> is returned as it is.
\<close>

theorem fetch_403_body_not_an_object_raises:
  "fst (fetch example_lib example_url [] [] (fetch_world JNull [response_of 403 (JNum 5)]))
     = Inl (Exn TypeError ''argument is not iterable'')
   \<and> fst (fetch example_lib example_url [] []
            (fetch_world JNull [response_of 403 (JObj [(''challenge'', JNull)])]))
     = Inl (Exn TypeError ''argument is not iterable'')
   \<and> fst (fetch example_lib example_url [] []
            (fetch_world JNull [response_of 403 (JObj [(''error'', JStr ''Forbidden'')])]))
     = Inr \<lparr>status_code = 403, json_result = Inr (JObj [(''error'', JStr ''Forbidden'')])\<rparr>"
  by (simp add: fetch_defs example_defs run_defs)



end
